theory Spec2Isabelle
  imports Complex_Main "HOL-Library.Log_Nat"
begin

section \<open>Data model\<close>

text \<open>
  Modelled from the spec: the models \<^verbatim>\<open>Profile\<close>, \<^verbatim>\<open>Contract\<close> and \<^verbatim>\<open>Job\<close>, which
  \<^verbatim>\<open>app.js\<close> takes from \<^verbatim>\<open>./model\<close>, a file that is not among the sources. The columns
  are the ones the handlers read and write, with the types of the data model of the
  specification. The columns \<^verbatim>\<open>id\<close> and \<^verbatim>\<open>type\<close> are written \<open>profile_id\<close>,
  \<open>contract_id\<close>, \<open>job_id\<close> and \<open>ptype\<close>. An amount of money is a number of the
  language and of the store, a double: it is modelled by the rational that is its value
  (the values that are not finite are left out). The arithmetic on amounts is not that
  of the rationals; it belongs to the environment below. The timestamps the mapping
  library maintains by itself are not modelled.
\<close>

datatype profile_kind = Client | Contractor

datatype contract_status = New | In_progress | Terminated

record profile =
  profile_id :: int
  ptype :: profile_kind
  balance :: rat
  firstName :: string
  lastName :: string
  profession :: string

record contract =
  contract_id :: int
  ClientId :: int
  ContractorId :: int
  status :: contract_status

record job =
  job_id :: int
  ContractId :: int
  price :: rat
  paid :: "bool option"
  paymentDate :: "nat option"

record store =
  profiles :: "profile list"
  contracts :: "contract list"
  jobs :: "job list"

section \<open>The store and its environment\<close>

text \<open>
  Every call of the mapping library is awaited inside a \<^verbatim>\<open>try\<close> block, so each of them
  may throw, and the handler then answers 500. Which calls throw is an input of the model:
  \<open>fails e c\<close> says that the call \<open>c\<close> is rejected by the store. A rejected call has no
  effect on the store. The other parts of the environment are functions that the
  sources use and do not define: \<open>key_of\<close>, the way the store compares the text of a
  header or of a route parameter with an integer key (\<open>None\<close>: the text matches no key);
  \<open>parseInt\<close>, the function of that name of the language (\<open>None\<close>: not a number);
  \<open>sql_add\<close> and \<open>sql_sub\<close>, the values the store gives to the expressions
  \<^verbatim>\<open>balance + x\<close> and \<^verbatim>\<open>balance - x\<close>; \<open>sql_sum\<close>, the value of its aggregate \<^verbatim>\<open>SUM\<close> over
  the selected prices; and \<open>js_mul\<close>, the product \<^verbatim>\<open>*\<close> of the language. These compute on
  doubles, so their results are rounded. Comparing two numbers is exact.
\<close>

datatype store_call =
  ProfileFindOne | JobFindByPk | ProfileUpdateDebit | ProfileUpdateCredit | JobUpdate
  | JobSum | ProfileUpdateDeposit

record env =
  fails :: "store_call \<Rightarrow> bool"
  key_of :: "string \<Rightarrow> int option"
  parseInt :: "string \<Rightarrow> int option"
  sql_add :: "rat \<Rightarrow> rat \<Rightarrow> rat"
  sql_sub :: "rat \<Rightarrow> rat \<Rightarrow> rat"
  sql_sum :: "rat list \<Rightarrow> rat"
  js_mul :: "rat \<Rightarrow> rat \<Rightarrow> rat"

text \<open>\<^verbatim>\<open>Profile.findOne({ where: { id: profileId } })\<close>: the first row with that key.\<close>

definition Profile_findOne :: "env \<Rightarrow> store \<Rightarrow> string \<Rightarrow> profile option" where
  "Profile_findOne e s t =
     (case key_of e t of
        None \<Rightarrow> None
      | Some k \<Rightarrow> find (\<lambda>p. profile_id p = k) (profiles s))"

text \<open>
  \<^verbatim>\<open>Job.findByPk(jobId, { include: ['Contract'] })\<close>: the first job with that key, and with
  it the contract its \<open>ContractId\<close> names, which is \<open>None\<close> (\<^verbatim>\<open>null\<close>) when there is none.
\<close>

definition Contract_of :: "store \<Rightarrow> job \<Rightarrow> contract option" where
  "Contract_of s j = find (\<lambda>c. contract_id c = ContractId j) (contracts s)"

definition Job_findByPk :: "env \<Rightarrow> store \<Rightarrow> string \<Rightarrow> (job \<times> contract option) option" where
  "Job_findByPk e s t =
     (case key_of e t of
        None \<Rightarrow> None
      | Some k \<Rightarrow>
          (case find (\<lambda>j. job_id j = k) (jobs s) of
             None \<Rightarrow> None
           | Some j \<Rightarrow> Some (j, Contract_of s j)))"

text \<open>
  \<^verbatim>\<open>Profile.update({ balance: Sequelize.literal(...) }, { where: { id } })\<close>: the balance of
  every row with that key is replaced by the value of the expression on the old balance.
\<close>

definition Profile_update :: "(rat \<Rightarrow> rat) \<Rightarrow> int \<Rightarrow> store \<Rightarrow> store" where
  "Profile_update f k s =
     s\<lparr>profiles := map (\<lambda>p. if profile_id p = k then p\<lparr>balance := f (balance p)\<rparr> else p)
                       (profiles s)\<rparr>"

text \<open>\<^verbatim>\<open>job.update({ paid: true, paymentDate: new Date() })\<close>, on the row of the job.\<close>

definition Job_update :: "nat \<Rightarrow> job \<Rightarrow> store \<Rightarrow> store" where
  "Job_update now j s =
     s\<lparr>jobs := map (\<lambda>x. if job_id x = job_id j
                          then x\<lparr>paid := Some True, paymentDate := Some now\<rparr> else x)
                   (jobs s)\<rparr>"

text \<open>
  \<^verbatim>\<open>Job.sum('price', ...)\<close> of the deposit handler: the aggregate of the store over the
  prices of the jobs whose \<open>paid\<close> is \<^verbatim>\<open>null\<close> and whose contract belongs to the client
  and is in progress. What the library returns for no job is not in the sources; the
  total is then 0, as the specification says.
\<close>

definition to_pay :: "store \<Rightarrow> int \<Rightarrow> job \<Rightarrow> bool" where
  "to_pay s k j =
     (paid j = None \<and>
      (case Contract_of s j of
         None \<Rightarrow> False
       | Some c \<Rightarrow> ClientId c = k \<and> status c = In_progress))"

definition prices_to_pay :: "store \<Rightarrow> int \<Rightarrow> rat list" where
  "prices_to_pay s k = map price (filter (to_pay s k) (jobs s))"

definition Job_sum :: "env \<Rightarrow> store \<Rightarrow> int \<Rightarrow> rat" where
  "Job_sum e s k =
     (if prices_to_pay s k = [] then 0 else sql_sum e (prices_to_pay s k))"

text \<open>
  The total of the deposit cap in the words of the specification, for comparison with the
  query of the source: the sum, in the rationals, of the prices of the jobs whose \<open>paid\<close>
  is not true, of the contracts of the client that are in progress.
\<close>

definition outstanding_spec :: "store \<Rightarrow> int \<Rightarrow> rat" where
  "outstanding_spec s k =
     sum_list (map price
       (filter (\<lambda>j. paid j \<noteq> Some True \<and>
                    (case Contract_of s j of
                       None \<Rightarrow> False
                     | Some c \<Rightarrow> ClientId c = k \<and> status c = In_progress))
          (jobs s)))"

section \<open>Responses\<close>

datatype response =
  ProfileIdMissing | ProfileNotFound | JobNotFound | UnauthorizedPay | InsufficientBalance
  | PaymentSuccessful | UnauthorizedDeposit | DepositExceedsMaximum | DepositSuccessful
  | InternalServerError

fun http_status :: "response \<Rightarrow> nat" where
  "http_status ProfileIdMissing = 400"
| "http_status ProfileNotFound = 404"
| "http_status JobNotFound = 404"
| "http_status UnauthorizedPay = 403"
| "http_status InsufficientBalance = 400"
| "http_status PaymentSuccessful = 200"
| "http_status UnauthorizedDeposit = 403"
| "http_status DepositExceedsMaximum = 400"
| "http_status DepositSuccessful = 200"
| "http_status InternalServerError = 500"

section \<open>The middleware \<^verbatim>\<open>getProfile\<close>\<close>

text \<open>
  The header is \<open>None\<close> when the request has none. The test \<^verbatim>\<open>!profileId\<close> also holds
  for a header whose value is the empty text. The result is either the response the
  middleware sends, or the profile it stores in \<^verbatim>\<open>req.profile\<close> before it calls
  \<^verbatim>\<open>next()\<close>.
\<close>

definition getProfile :: "env \<Rightarrow> store \<Rightarrow> string option \<Rightarrow> response + profile" where
  "getProfile e s hdr =
     (case hdr of
        None \<Rightarrow> Inl ProfileIdMissing
      | Some t \<Rightarrow>
          if t = [] then Inl ProfileIdMissing
          else if fails e ProfileFindOne then Inl InternalServerError
          else (case Profile_findOne e s t of
                  None \<Rightarrow> Inl ProfileNotFound
                | Some p \<Rightarrow> Inr p))"

text \<open>
  A route \<^verbatim>\<open>app.post(path, getProfile, handler)\<close>: the handler runs only when the
  middleware has called \<^verbatim>\<open>next()\<close>, with the profile of the middleware.
\<close>

definition guarded ::
  "env \<Rightarrow> string option \<Rightarrow> (profile \<Rightarrow> store \<Rightarrow> response \<times> store) \<Rightarrow> store \<Rightarrow> response \<times> store"
where
  "guarded e hdr handler s =
     (case getProfile e s hdr of
        Inl r \<Rightarrow> (r, s)
      | Inr p \<Rightarrow> handler p s)"

section \<open>Paying a job\<close>

text \<open>
  The handler of \<^verbatim>\<open>POST /jobs/:job_id/pay\<close>. Reading \<^verbatim>\<open>job.Contract.ClientId\<close> when the
  job has no contract throws, which the \<^verbatim>\<open>catch\<close> turns into 500. The three writes are
  three calls of the store, one after the other.
\<close>

definition payJob :: "env \<Rightarrow> nat \<Rightarrow> string \<Rightarrow> profile \<Rightarrow> store \<Rightarrow> response \<times> store" where
  "payJob e now jobId profile s =
     (if fails e JobFindByPk then (InternalServerError, s)
      else case Job_findByPk e s jobId of
        None \<Rightarrow> (JobNotFound, s)
      | Some (job, None) \<Rightarrow> (InternalServerError, s)
      | Some (job, Some c) \<Rightarrow>
          if ClientId c \<noteq> profile_id profile then (UnauthorizedPay, s)
          else if balance profile < price job then (InsufficientBalance, s)
          else if fails e ProfileUpdateDebit then (InternalServerError, s)
          else let s1 = Profile_update (\<lambda>b. sql_sub e b (price job)) (profile_id profile) s in
            if fails e ProfileUpdateCredit then (InternalServerError, s1)
            else let s2 = Profile_update (\<lambda>b. sql_add e b (price job)) (ContractorId c) s1 in
              if fails e JobUpdate then (InternalServerError, s2)
              else (PaymentSuccessful, Job_update now job s2))"

definition post_jobs_pay ::
  "env \<Rightarrow> nat \<Rightarrow> string option \<Rightarrow> string \<Rightarrow> store \<Rightarrow> response \<times> store" where
  "post_jobs_pay e now hdr jobId s = guarded e hdr (payJob e now jobId) s"

section \<open>Depositing\<close>

text \<open>
  The handler of \<^verbatim>\<open>POST /balances/deposit/:userId\<close>, for a request whose body holds a
  number as its \<^verbatim>\<open>amount\<close>, as the interface of the specification has it. The source
  does not check that it is one, and what it does with a body of another kind is not
  modelled. The two tests of the first condition are made in turn, as \<^verbatim>\<open>||\<close> does.
\<close>

definition deposit :: "env \<Rightarrow> string \<Rightarrow> rat \<Rightarrow> profile \<Rightarrow> store \<Rightarrow> response \<times> store" where
  "deposit e userId depositAmount profile s =
     (if Some (profile_id profile) \<noteq> parseInt e userId then (UnauthorizedDeposit, s)
      else if ptype profile \<noteq> Client then (UnauthorizedDeposit, s)
      else if fails e JobSum then (InternalServerError, s)
      else let totalJobsToPay = Job_sum e s (profile_id profile);
               maxDepositAmount = js_mul e totalJobsToPay 0.25
        in if depositAmount > maxDepositAmount then (DepositExceedsMaximum, s)
           else if fails e ProfileUpdateDeposit then (InternalServerError, s)
           else (DepositSuccessful,
                 Profile_update (\<lambda>b. sql_add e b depositAmount) (profile_id profile) s))"

definition post_balances_deposit ::
  "env \<Rightarrow> string option \<Rightarrow> string \<Rightarrow> rat \<Rightarrow> store \<Rightarrow> response \<times> store" where
  "post_balances_deposit e hdr userId depositAmount s =
     guarded e hdr (deposit e userId depositAmount) s"

section \<open>Reading the store\<close>

definition balance_of :: "store \<Rightarrow> int \<Rightarrow> rat option" where
  "balance_of s k = map_option balance (find (\<lambda>p. profile_id p = k) (profiles s))"

definition total_balance :: "store \<Rightarrow> rat" where
  "total_balance s = sum_list (map balance (profiles s))"

section \<open>The arithmetic of doubles\<close>

text \<open>
  The value of the double nearest to a rational, ties to the even significand: 53 bits
  of significand, exponents down to the subnormal numbers. A result beyond the largest
  double, which the machine turns into an infinity, is rounded like the others. On whole
  numbers up to \<open>2 ^ 53\<close> the arithmetic of the store is exact and agrees with this one.
\<close>

definition round_half_even :: "rat \<Rightarrow> int" where
  "round_half_even x =
     (let f = \<lfloor>x\<rfloor>; d = x - of_int f
      in if d < 1 / 2 then f else if 1 / 2 < d then f + 1 else if even f then f else f + 1)"

definition binary64 :: "rat \<Rightarrow> rat" where
  "binary64 x =
     (if x = 0 then 0
      else let (a, b) = quotient_of \<bar>x\<bar>;
               k = bitlen a - bitlen b;
               l = (if 2 powi k \<le> \<bar>x\<bar> then k else k - 1);
               e = max (l - 52) (- 1074)
           in of_int (round_half_even (x / 2 powi e)) * 2 powi e)"

section \<open>A store for the examples\<close>

definition alice :: profile where
  "alice = \<lparr>profile_id = 1, ptype = Client, balance = 100,
            firstName = ''Alice'', lastName = ''A'', profession = ''wizard''\<rparr>"

definition bob :: profile where
  "bob = \<lparr>profile_id = 2, ptype = Contractor, balance = 20,
          firstName = ''Bob'', lastName = ''B'', profession = ''programmer''\<rparr>"

definition carol :: profile where
  "carol = \<lparr>profile_id = 3, ptype = Client, balance = 5,
            firstName = ''Carol'', lastName = ''C'', profession = ''knight''\<rparr>"

definition contract1 :: contract where
  "contract1 = \<lparr>contract_id = 1, ClientId = 1, ContractorId = 2, status = In_progress\<rparr>"

definition contract2 :: contract where
  "contract2 = \<lparr>contract_id = 2, ClientId = 3, ContractorId = 2, status = Terminated\<rparr>"

definition job1 :: job where
  "job1 = \<lparr>job_id = 1, ContractId = 1, price = 10, paid = None, paymentDate = None\<rparr>"

definition job2 :: job where
  "job2 = \<lparr>job_id = 2, ContractId = 2, price = 10, paid = None, paymentDate = None\<rparr>"

definition job3 :: job where
  "job3 = \<lparr>job_id = 3, ContractId = 2, price = 2, paid = None, paymentDate = None\<rparr>"

definition store0 :: store where
  "store0 = \<lparr>profiles = [alice, bob, carol], contracts = [contract1, contract2],
             jobs = [job1, job2, job3]\<rparr>"

text \<open>A job of the first contract whose \<open>paid\<close> is \<^verbatim>\<open>false\<close>, and a store that holds it.\<close>

definition job4 :: job where
  "job4 = \<lparr>job_id = 4, ContractId = 1, price = 100, paid = Some False, paymentDate = None\<rparr>"

definition store_false :: store where
  "store_false = \<lparr>profiles = [alice, bob, carol], contracts = [contract1, contract2],
                  jobs = [job1, job4]\<rparr>"

text \<open>
  A contract whose client is also its contractor, with a job, and a store that holds them.
\<close>

definition contract3 :: contract where
  "contract3 = \<lparr>contract_id = 3, ClientId = 1, ContractorId = 1, status = In_progress\<rparr>"

definition job5 :: job where
  "job5 = \<lparr>job_id = 5, ContractId = 3, price = 10, paid = None, paymentDate = None\<rparr>"

definition store_self :: store where
  "store_self = \<lparr>profiles = [alice, bob, carol], contracts = [contract3], jobs = [job5]\<rparr>"

text \<open>
  A store with amounts that have a fraction: the balances are the doubles nearest to 0.3
  and 0.2, and the two jobs of the first contract cost the doubles nearest to 0.1 and 0.2.
\<close>

definition dave :: profile where
  "dave = \<lparr>profile_id = 1, ptype = Client, balance = 5404319552844595 / 18014398509481984,
           firstName = ''Dave'', lastName = ''D'', profession = ''bard''\<rparr>"

definition erin :: profile where
  "erin = \<lparr>profile_id = 2, ptype = Contractor, balance = 3602879701896397 / 18014398509481984,
           firstName = ''Erin'', lastName = ''E'', profession = ''smith''\<rparr>"

definition job6 :: job where
  "job6 = \<lparr>job_id = 1, ContractId = 1, price = 3602879701896397 / 36028797018963968,
           paid = None, paymentDate = None\<rparr>"

definition job7 :: job where
  "job7 = \<lparr>job_id = 2, ContractId = 1, price = 3602879701896397 / 18014398509481984,
           paid = None, paymentDate = None\<rparr>"

definition store_frac :: store where
  "store_frac = \<lparr>profiles = [dave, erin], contracts = [contract1], jobs = [job6, job7]\<rparr>"

text \<open>
  An environment in which no call of the store throws, and whose arithmetic is that of
  doubles; the aggregate adds the prices one after the other.
\<close>

definition env0 :: env where
  "env0 = \<lparr>fails = (\<lambda>c. False),
           key_of = map_of [(''1'', 1), (''2'', 2), (''3'', 3), (''5'', 5)],
           parseInt = map_of [(''1'', 1), (''2'', 2), (''3'', 3), (''5'', 5)],
           sql_add = (\<lambda>a b. binary64 (a + b)),
           sql_sub = (\<lambda>a b. binary64 (a - b)),
           sql_sum = foldl (\<lambda>a b. binary64 (a + b)) 0,
           js_mul = (\<lambda>a b. binary64 (a * b))\<rparr>"

text \<open>An environment in which the store rejects the second write of a payment.\<close>

definition env_credit_fails :: env where
  "env_credit_fails = env0\<lparr>fails := (\<lambda>c. c = ProfileUpdateCredit)\<rparr>"

text \<open>The row of a job in a store.\<close>

definition job_row :: "store \<Rightarrow> int \<Rightarrow> job option" where
  "job_row s k = find (\<lambda>j. job_id j = k) (jobs s)"

lemmas example_defs =
  alice_def bob_def carol_def contract1_def contract2_def job1_def job2_def job3_def
  store0_def env0_def

lemmas model_defs =
  Profile_findOne_def Contract_of_def Job_findByPk_def Profile_update_def Job_update_def
  getProfile_def guarded_def payJob_def post_jobs_pay_def balance_of_def total_balance_def

section \<open>Lemmas on the store\<close>

lemma find_profile_id:
  "find (\<lambda>p. profile_id p = k) ps = Some p \<Longrightarrow> profile_id p = k \<and> p \<in> set ps"
  by (induction ps) (auto split: if_splits)

lemma getProfile_Inr:
  assumes "getProfile e s hdr = Inr p"
  shows "find (\<lambda>q. profile_id q = profile_id p) (profiles s) = Some p"
    and "p \<in> set (profiles s)"
  using assms
  by (auto simp: getProfile_def Profile_findOne_def split: option.splits if_splits
      dest: find_profile_id)

lemma getProfile_Inl:
  "getProfile e s hdr = Inl r \<Longrightarrow>
     r = ProfileIdMissing \<or> r = ProfileNotFound \<or> r = InternalServerError"
  by (auto simp: getProfile_def split: option.splits if_splits)

lemma find_Profile_update:
  "find (\<lambda>p. profile_id p = k) (profiles (Profile_update f k' s)) =
     map_option (\<lambda>p. if k = k' then p\<lparr>balance := f (balance p)\<rparr> else p)
       (find (\<lambda>p. profile_id p = k) (profiles s))"
proof -
  have "find (\<lambda>p. profile_id p = k)
          (map (\<lambda>p. if profile_id p = k' then p\<lparr>balance := f (balance p)\<rparr> else p) ps) =
        map_option (\<lambda>p. if k = k' then p\<lparr>balance := f (balance p)\<rparr> else p)
          (find (\<lambda>p. profile_id p = k) ps)" for ps
    by (induction ps) auto
  then show ?thesis by (simp add: Profile_update_def)
qed

lemma balance_of_Profile_update:
  "balance_of (Profile_update f k' s) k =
     map_option (\<lambda>b. if k = k' then f b else b) (balance_of s k)"
  by (cases "find (\<lambda>p. profile_id p = k) (profiles s)")
     (simp_all add: balance_of_def find_Profile_update)

lemma balance_of_Job_update [simp]: "balance_of (Job_update now j s) k = balance_of s k"
  by (simp add: balance_of_def Job_update_def)

lemma total_balance_Job_update [simp]: "total_balance (Job_update now j s) = total_balance s"
  by (simp add: total_balance_def Job_update_def)

lemma update_absent:
  "k \<notin> set (map profile_id ps) \<Longrightarrow>
   map (\<lambda>p. if profile_id p = k then p\<lparr>balance := f (balance p)\<rparr> else p) ps = ps"
  by (induction ps) auto

text \<open>
  With unique keys, a write of the balance of one profile moves the sum of the balances
  by the difference between the new balance and the old one.
\<close>

lemma sum_list_update_present:
  "distinct (map profile_id ps) \<Longrightarrow> find (\<lambda>p. profile_id p = k) ps = Some q \<Longrightarrow>
   sum_list (map balance
     (map (\<lambda>p. if profile_id p = k then p\<lparr>balance := f (balance p)\<rparr> else p) ps)) =
   sum_list (map balance ps) + (f (balance q) - balance q)"
proof (induction ps)
  case Nil
  then show ?case by simp
next
  case (Cons r ps)
  show ?case
  proof (cases "profile_id r = k")
    case True
    with Cons.prems have "k \<notin> set (map profile_id ps)" and "q = r" by auto
    with update_absent [of k ps f] True show ?thesis by simp
  next
    case False
    with Cons show ?thesis by auto
  qed
qed

lemma total_balance_Profile_update:
  assumes "distinct (map profile_id (profiles s))" and "balance_of s k = Some b"
  shows "total_balance (Profile_update f k s) = total_balance s + (f b - b)"
proof -
  from assms(2) obtain q where "find (\<lambda>p. profile_id p = k) (profiles s) = Some q"
    and "balance q = b"
    by (auto simp: balance_of_def)
  with sum_list_update_present [OF assms(1), of k q f] show ?thesis
    by (simp add: total_balance_def Profile_update_def)
qed

lemma profile_ids_Profile_update [simp]:
  "map profile_id (profiles (Profile_update f k s)) = map profile_id (profiles s)"
  by (simp add: Profile_update_def comp_def if_distrib cong: if_cong)

text \<open>A payment that answers 200 has passed every check and made the three writes.\<close>

lemma post_jobs_pay_success:
  assumes "post_jobs_pay e now hdr jobId s = (PaymentSuccessful, s')"
  shows "\<exists>p j c. getProfile e s hdr = Inr p \<and> Job_findByPk e s jobId = Some (j, Some c) \<and>
           ClientId c = profile_id p \<and> price j \<le> balance p \<and>
           s' = Job_update now j
                  (Profile_update (\<lambda>b. sql_add e b (price j)) (ContractorId c)
                     (Profile_update (\<lambda>b. sql_sub e b (price j)) (profile_id p) s))"
  using assms
  by (auto simp: post_jobs_pay_def guarded_def payJob_def Let_def
      split: sum.splits option.splits if_splits prod.splits dest: getProfile_Inl)

lemma find_map_status:
  "find (\<lambda>c. contract_id c = k) (map (\<lambda>c. c\<lparr>status := f c\<rparr>) cs) =
     map_option (\<lambda>c. c\<lparr>status := f c\<rparr>) (find (\<lambda>c. contract_id c = k) cs)"
  by (induction cs) auto

lemma prices_to_pay_outstanding_spec:
  assumes "list_all (\<lambda>j. paid j \<noteq> Some False) (jobs s)"
  shows "sum_list (prices_to_pay s k) = outstanding_spec s k"
proof -
  have "filter (to_pay s k) js =
        filter (\<lambda>j. paid j \<noteq> Some True \<and>
                    (case Contract_of s j of
                       None \<Rightarrow> False
                     | Some c \<Rightarrow> ClientId c = k \<and> status c = In_progress)) js"
    if "list_all (\<lambda>j. paid j \<noteq> Some False) js" for js
    using that by (induction js) (auto simp: to_pay_def)
  with assms show ?thesis by (simp add: prices_to_pay_def outstanding_spec_def)
qed

text \<open>The arithmetic of doubles on the whole numbers and the halves of the examples.\<close>

lemma binary64_examples:
  "binary64 100 = 100" "binary64 90 = 90" "binary64 80 = 80" "binary64 30 = 30"
  "binary64 40 = 40" "binary64 95 = 95" "binary64 3 = 3" "binary64 22 = 22"
  "binary64 10 = 10" "binary64 110 = 110" "binary64 102 = 102"
  "binary64 (5 / 2) = 5 / 2" "binary64 (205 / 2) = 205 / 2"
  by code_simp+

text \<open>The amounts of the store with fractions are the doubles nearest to 0.3, 0.2 and 0.1.\<close>

lemma binary64_fractions:
  "binary64 (3 / 10) = balance dave" "binary64 (2 / 10) = balance erin"
  "binary64 (1 / 10) = price job6" "binary64 (2 / 10) = price job7"
  by code_simp+

section \<open>Payment: conservation of money\<close>

text \<open>
  Claim C1, as amended. Take a payment that answers 200 for a job of price \<open>price j\<close>, on
  a store whose profile keys are unique and that holds the profile \<open>ContractorId c\<close>.
  The balance the handler has compared is the one of the store. When the payer and the
  contractor are two different profiles, the balance of the payer becomes the value the
  store gives to its balance minus the price, and the balance of the contractor the
  value the store gives to its balance plus the price: one debit and one credit of the
  same amount. When the store computes the subtraction and the addition of this payment
  exactly, the sum of the balances of all the profiles is as it was, and, the two
  profiles being different, the payer has lost exactly the price, the contractor has
  gained exactly the price, and the sum of their two balances is as it was.
\<close>

theorem payJob_transfer:
  assumes ok: "post_jobs_pay e now hdr jobId s = (PaymentSuccessful, s')"
    and g: "getProfile e s hdr = Inr p"
    and f: "Job_findByPk e s jobId = Some (j, Some c)"
    and d: "distinct (map profile_id (profiles s))"
    and q: "balance_of s (ContractorId c) = Some bc"
  shows "balance_of s (profile_id p) = Some (balance p) \<and>
         (ContractorId c \<noteq> profile_id p \<longrightarrow>
            balance_of s' (profile_id p) = Some (sql_sub e (balance p) (price j)) \<and>
            balance_of s' (ContractorId c) = Some (sql_add e bc (price j))) \<and>
         (sql_sub e (balance p) (price j) = balance p - price j \<and>
          sql_add e (if ContractorId c = profile_id p then balance p - price j else bc) (price j) =
            (if ContractorId c = profile_id p then balance p - price j else bc) + price j \<longrightarrow>
            total_balance s' = total_balance s \<and>
            (ContractorId c \<noteq> profile_id p \<longrightarrow>
               balance_of s' (profile_id p) = Some (balance p - price j) \<and>
               balance_of s' (ContractorId c) = Some (bc + price j) \<and>
               (balance p - price j) + (bc + price j) = balance p + bc))"
proof -
  let ?P = "profile_id p" and ?C = "ContractorId c"
  let ?s1 = "Profile_update (\<lambda>b. sql_sub e b (price j)) ?P s"
  let ?b1 = "if ?C = ?P then sql_sub e (balance p) (price j) else bc"
  from ok g f have s': "s' = Job_update now j (Profile_update (\<lambda>b. sql_add e b (price j)) ?C ?s1)"
    by (simp add: post_jobs_pay_def guarded_def payJob_def Let_def split: if_splits)
  from getProfile_Inr(1) [OF g] have bp: "balance_of s ?P = Some (balance p)"
    by (simp add: balance_of_def)
  have c1: "balance_of ?s1 ?C = Some ?b1"
    using q bp by (auto simp: balance_of_Profile_update)
  have a: "balance_of s' ?P = Some (sql_sub e (balance p) (price j))"
    "balance_of s' ?C = Some (sql_add e bc (price j))" if "?C \<noteq> ?P"
    using that q bp by (simp_all add: s' balance_of_Profile_update)
  have t1: "total_balance ?s1 = total_balance s + (sql_sub e (balance p) (price j) - balance p)"
    using total_balance_Profile_update [OF d bp] by simp
  have d1: "distinct (map profile_id (profiles ?s1))"
    using d by simp
  have t: "total_balance s' =
             total_balance s + (sql_sub e (balance p) (price j) - balance p) +
               (sql_add e ?b1 (price j) - ?b1)"
    using total_balance_Profile_update [OF d1 c1, of "\<lambda>b. sql_add e b (price j)"] t1
    by (simp add: s')
  have ex: "total_balance s' = total_balance s"
    if "sql_sub e (balance p) (price j) = balance p - price j"
      and "sql_add e (if ?C = ?P then balance p - price j else bc) (price j) =
             (if ?C = ?P then balance p - price j else bc) + price j"
    using that t by (simp split: if_splits)
  from bp a ex show ?thesis by simp
qed

text \<open>
  The first client pays the first job of the example store: 100 and 20 become 90 and 30,
  and the sum of the balances stays.
\<close>

theorem payJob_transfer_witness:
  "post_jobs_pay env0 7 (Some ''1'') ''1'' store0 =
     (PaymentSuccessful, snd (post_jobs_pay env0 7 (Some ''1'') ''1'' store0)) \<and>
   getProfile env0 store0 (Some ''1'') = Inr alice \<and>
   Job_findByPk env0 store0 ''1'' = Some (job1, Some contract1) \<and>
   distinct (map profile_id (profiles store0)) \<and>
   balance_of store0 (ContractorId contract1) = Some 20 \<and>
   balance alice = 100 \<and> price job1 = 10 \<and>
   sql_sub env0 100 10 = 100 - 10 \<and> sql_add env0 20 10 = 20 + 10 \<and>
   balance_of (snd (post_jobs_pay env0 7 (Some ''1'') ''1'' store0)) 1 = Some 90 \<and>
   balance_of (snd (post_jobs_pay env0 7 (Some ''1'') ''1'' store0)) 2 = Some 30 \<and>
   total_balance (snd (post_jobs_pay env0 7 (Some ''1'') ''1'' store0)) = total_balance store0"
proof -
  have r: "fst (post_jobs_pay env0 7 (Some ''1'') ''1'' store0) = PaymentSuccessful"
    by (simp add: model_defs example_defs)
  then have ok: "post_jobs_pay env0 7 (Some ''1'') ''1'' store0 =
                  (PaymentSuccessful, snd (post_jobs_pay env0 7 (Some ''1'') ''1'' store0))"
    by (simp add: prod_eq_iff)
  have g: "getProfile env0 store0 (Some ''1'') = Inr alice"
    by (simp add: model_defs example_defs)
  have f: "Job_findByPk env0 store0 ''1'' = Some (job1, Some contract1)"
    by (simp add: model_defs example_defs)
  have d: "distinct (map profile_id (profiles store0))"
    by (simp add: example_defs)
  have q: "balance_of store0 (ContractorId contract1) = Some 20"
    by (simp add: model_defs example_defs)
  have v: "balance alice = 100" "price job1 = 10" "ContractorId contract1 = 2"
    "profile_id alice = 1"
    by (simp_all add: example_defs)
  have x: "sql_sub env0 100 10 = 100 - 10" "sql_add env0 20 10 = 20 + 10"
    by (simp_all add: env0_def binary64_examples)
  from payJob_transfer [OF ok g f d q] ok g f d q v x show ?thesis by simp
qed

text \<open>
  The claim as it is written fails in two ways. When the client of the contract is also its
  contractor, the request answers 200 and the balance of the payer is 100 before and
  after: it has not decreased by the price, 10. And with balances and a price that have a
  fraction (the doubles nearest to 0.3, 0.2 and 0.1), the request answers 200, the balance
  of the contractor becomes the double nearest to the exact sum, its increase is not the
  price, and the sum of the balances has changed.
\<close>

theorem payJob_conservation_counterexample:
  "fst (post_jobs_pay env0 7 (Some ''1'') ''5'' store_self) = PaymentSuccessful \<and>
   Job_findByPk env0 store_self ''5'' = Some (job5, Some contract3) \<and>
   ClientId contract3 = 1 \<and> ContractorId contract3 = 1 \<and> price job5 = 10 \<and>
   balance_of store_self 1 = Some 100 \<and>
   balance_of (snd (post_jobs_pay env0 7 (Some ''1'') ''5'' store_self)) 1 = Some 100 \<and>
   fst (post_jobs_pay env0 7 (Some ''1'') ''1'' store_frac) = PaymentSuccessful \<and>
   Job_findByPk env0 store_frac ''1'' = Some (job6, Some contract1) \<and>
   balance_of store_frac 2 = Some (balance erin) \<and>
   balance_of (snd (post_jobs_pay env0 7 (Some ''1'') ''1'' store_frac)) 2 =
     Some (1351079888211149 / 4503599627370496) \<and>
   1351079888211149 / 4503599627370496 - balance erin \<noteq> price job6 \<and>
   total_balance (snd (post_jobs_pay env0 7 (Some ''1'') ''1'' store_frac)) \<noteq>
     total_balance store_frac"
proof -
  have a: "fst (post_jobs_pay env0 7 (Some ''1'') ''5'' store_self) = PaymentSuccessful"
    "Job_findByPk env0 store_self ''5'' = Some (job5, Some contract3)"
    "ClientId contract3 = 1" "ContractorId contract3 = 1" "price job5 = 10"
    "balance_of store_self 1 = Some 100"
    "balance_of (snd (post_jobs_pay env0 7 (Some ''1'') ''5'' store_self)) 1 = Some 100"
    by (simp_all add: model_defs example_defs contract3_def job5_def store_self_def
        binary64_examples)
  have b: "fst (post_jobs_pay env0 7 (Some ''1'') ''1'' store_frac) = PaymentSuccessful"
    "Job_findByPk env0 store_frac ''1'' = Some (job6, Some contract1)"
    "balance_of store_frac 2 = Some (balance erin)"
    by (simp_all add: model_defs example_defs dave_def erin_def job6_def job7_def
        store_frac_def)
  have c: "balance_of (snd (post_jobs_pay env0 7 (Some ''1'') ''1'' store_frac)) 2 =
     Some (1351079888211149 / 4503599627370496)"
    by code_simp
  have d: "1351079888211149 / 4503599627370496 - balance erin \<noteq> price job6"
    by (simp add: erin_def job6_def)
  have e: "total_balance (snd (post_jobs_pay env0 7 (Some ''1'') ''1'' store_frac)) \<noteq>
     total_balance store_frac"
    by code_simp
  from a b c d e show ?thesis by simp
qed

section \<open>Payment: a second payment of the same job\<close>

text \<open>
  Claim C2. The handler never reads the \<open>paid\<close> flag it sets. In the example store the
  first client, with a balance of 100, pays the first job, of price 10, twice in a row:
  both requests answer 200, the job is marked paid after the first one, and the second
  one debits the client and credits the contractor once more (100, 90, 80 for the client;
  20 to 40 for the contractor), where the claim asks for one debit and one credit in all.
\<close>

theorem payJob_twice_evaluation:
  "fst (post_jobs_pay env0 7 (Some ''1'') ''1'' store0) = PaymentSuccessful \<and>
   fst (post_jobs_pay env0 8 (Some ''1'') ''1''
          (snd (post_jobs_pay env0 7 (Some ''1'') ''1'' store0))) = PaymentSuccessful \<and>
   price job1 = 10 \<and>
   balance_of store0 1 = Some 100 \<and> balance_of store0 2 = Some 20 \<and>
   map_option paid (job_row (snd (post_jobs_pay env0 7 (Some ''1'') ''1'' store0)) 1) =
     Some (Some True) \<and>
   balance_of (snd (post_jobs_pay env0 7 (Some ''1'') ''1'' store0)) 1 = Some 90 \<and>
   balance_of (snd (post_jobs_pay env0 8 (Some ''1'') ''1''
          (snd (post_jobs_pay env0 7 (Some ''1'') ''1'' store0)))) 1 = Some 80 \<and>
   balance_of (snd (post_jobs_pay env0 8 (Some ''1'') ''1''
          (snd (post_jobs_pay env0 7 (Some ''1'') ''1'' store0)))) 2 = Some 40"
  by (simp add: model_defs example_defs job_row_def binary64_examples)

section \<open>Payment: the status of the contract\<close>

text \<open>
  Claim C3. The handler does not read the status of the contract, which the queries of the
  unpaid jobs and of the deposit total do. In the example store the second contract is
  terminated, and its client, with a balance of 5, pays its job of price 2: the request
  answers 200, 2 moves from the client to the contractor, and the job is marked paid,
  where the claim asks that the payment is not performed.
\<close>

theorem payJob_terminated_evaluation:
  "Job_findByPk env0 store0 ''3'' = Some (job3, Some contract2) \<and>
   status contract2 = Terminated \<and>
   fst (post_jobs_pay env0 7 (Some ''3'') ''3'' store0) = PaymentSuccessful \<and>
   balance_of store0 3 = Some 5 \<and>
   balance_of (snd (post_jobs_pay env0 7 (Some ''3'') ''3'' store0)) 3 = Some 3 \<and>
   balance_of store0 2 = Some 20 \<and>
   balance_of (snd (post_jobs_pay env0 7 (Some ''3'') ''3'' store0)) 2 = Some 22 \<and>
   map_option paid (job_row (snd (post_jobs_pay env0 7 (Some ''3'') ''3'' store0)) 3) =
     Some (Some True)"
  by (simp add: model_defs example_defs job_row_def binary64_examples)

text \<open>
  No status is read: whatever the statuses of the contracts are changed to (\<open>f\<close> gives
  each contract its new status), the request has the same answer and makes the same
  writes.
\<close>

lemma payJob_status_not_read:
  "post_jobs_pay e now hdr jobId (s\<lparr>contracts := map (\<lambda>c. c\<lparr>status := f c\<rparr>) (contracts s)\<rparr>) =
     (case post_jobs_pay e now hdr jobId s of
        (r, s') \<Rightarrow> (r, s'\<lparr>contracts := map (\<lambda>c. c\<lparr>status := f c\<rparr>) (contracts s')\<rparr>))"
proof -
  let ?s = "s\<lparr>contracts := map (\<lambda>c. c\<lparr>status := f c\<rparr>) (contracts s)\<rparr>"
  have g: "getProfile e ?s hdr = getProfile e s hdr"
    by (simp add: getProfile_def Profile_findOne_def split: option.splits)
  have j: "Job_findByPk e ?s jobId =
             map_option (\<lambda>(j, co). (j, map_option (\<lambda>c. c\<lparr>status := f c\<rparr>) co))
               (Job_findByPk e s jobId)"
    by (simp add: Job_findByPk_def Contract_of_def find_map_status split: option.splits)
  show ?thesis
    by (simp add: post_jobs_pay_def guarded_def payJob_def g j Let_def
        Profile_update_def Job_update_def split: sum.splits option.splits)
qed

section \<open>Payment: insufficient balance\<close>

text \<open>
  Claim C4. The funds check comes after the lookup of the job and the check of the
  caller. Once these have passed (the job is found with its contract, and the caller is
  the client of that contract), a balance of the payer strictly below the price of the
  job makes the request answer 400, insufficient balance, and the store, so every
  balance, is as it was. The balance the handler compares is the one of the store.
\<close>

theorem payJob_insufficient:
  assumes "getProfile e s hdr = Inr p"
    and "\<not> fails e JobFindByPk"
    and "Job_findByPk e s jobId = Some (j, Some c)"
    and "ClientId c = profile_id p"
    and "balance p < price j"
  shows "post_jobs_pay e now hdr jobId s = (InsufficientBalance, s) \<and>
         http_status InsufficientBalance = 400 \<and>
         balance_of s (profile_id p) = Some (balance p)"
  using assms getProfile_Inr(1) [OF assms(1)]
  by (simp add: post_jobs_pay_def guarded_def payJob_def balance_of_def)

text \<open>The third client has 5 and the second job costs 10.\<close>

theorem payJob_insufficient_witness:
  "getProfile env0 store0 (Some ''3'') = Inr carol \<and> \<not> fails env0 JobFindByPk \<and>
   Job_findByPk env0 store0 ''2'' = Some (job2, Some contract2) \<and>
   ClientId contract2 = profile_id carol \<and> balance carol = 5 \<and> price job2 = 10 \<and>
   post_jobs_pay env0 7 (Some ''3'') ''2'' store0 = (InsufficientBalance, store0)"
proof -
  have a: "getProfile env0 store0 (Some ''3'') = Inr carol"
    by (simp add: model_defs example_defs)
  have b: "\<not> fails env0 JobFindByPk" by (simp add: env0_def)
  have c: "Job_findByPk env0 store0 ''2'' = Some (job2, Some contract2)"
    by (simp add: model_defs example_defs)
  have d: "ClientId contract2 = profile_id carol" by (simp add: example_defs)
  have f: "balance carol = 5" "price job2 = 10" by (simp_all add: example_defs)
  then have g: "balance carol < price job2" by simp
  from payJob_insufficient [OF a b c d g, of 7] a b c d f show ?thesis by simp
qed

section \<open>Payment: authorization\<close>

text \<open>
  Claim C5. When the job is found with its contract and the key of the caller differs
  from the \<open>ClientId\<close> of that contract, the request answers 403, unauthorized, and the
  store is as it was. The contractor of the contract is such a caller.
\<close>

theorem payJob_unauthorized:
  assumes "getProfile e s hdr = Inr p"
    and "\<not> fails e JobFindByPk"
    and "Job_findByPk e s jobId = Some (j, Some c)"
    and "ClientId c \<noteq> profile_id p"
  shows "post_jobs_pay e now hdr jobId s = (UnauthorizedPay, s) \<and>
         http_status UnauthorizedPay = 403"
  using assms by (simp add: post_jobs_pay_def guarded_def payJob_def)

text \<open>The contractor of the first contract asks to pay its job.\<close>

theorem payJob_unauthorized_witness:
  "getProfile env0 store0 (Some ''2'') = Inr bob \<and> \<not> fails env0 JobFindByPk \<and>
   Job_findByPk env0 store0 ''1'' = Some (job1, Some contract1) \<and>
   ContractorId contract1 = profile_id bob \<and> ClientId contract1 \<noteq> profile_id bob \<and>
   post_jobs_pay env0 7 (Some ''2'') ''1'' store0 = (UnauthorizedPay, store0)"
proof -
  have a: "getProfile env0 store0 (Some ''2'') = Inr bob"
    by (simp add: model_defs example_defs)
  have b: "\<not> fails env0 JobFindByPk" by (simp add: env0_def)
  have c: "Job_findByPk env0 store0 ''1'' = Some (job1, Some contract1)"
    by (simp add: model_defs example_defs)
  have d: "ClientId contract1 \<noteq> profile_id bob" "ContractorId contract1 = profile_id bob"
    by (simp_all add: example_defs)
  from payJob_unauthorized [OF a b c d(1), of 7] a b c d show ?thesis by simp
qed

section \<open>Deposit: the cap\<close>

text \<open>
  Claim C6, as amended. The total \<open>T\<close> of the source is \<open>Job_sum\<close>: what the aggregate
  of the store returns over the prices of the jobs of the client, on contracts in
  progress, whose \<open>paid\<close> is \<^verbatim>\<open>null\<close>, and 0 when there is no such job. The cap is the
  product of \<open>T\<close> and 0.25 as the language computes it. For a client that deposits on
  its own account, when the store rejects no call: the balance of the store is the one of
  the profile of the request; a request of exactly the cap answers 200 and the balance
  becomes the value the store gives to the balance plus the amount; a request above the
  cap answers 400, deposit exceeds the maximum, and the store is as it was. When the
  aggregate and the product are exact, the cap is a quarter of the sum of those prices;
  and that sum is the total of the specification (jobs whose \<open>paid\<close> is not true)
  whenever no job has \<open>paid\<close> equal to \<^verbatim>\<open>false\<close>.
\<close>

theorem deposit_cap:
  assumes g: "getProfile e s hdr = Inr p"
    and auth: "parseInt e userId = Some (profile_id p)" "ptype p = Client"
    and nf: "\<not> fails e JobSum" "\<not> fails e ProfileUpdateDeposit"
  shows "balance_of s (profile_id p) = Some (balance p) \<and>
         (amount = js_mul e (Job_sum e s (profile_id p)) 0.25 \<longrightarrow>
            fst (post_balances_deposit e hdr userId amount s) = DepositSuccessful \<and>
            http_status DepositSuccessful = 200 \<and>
            balance_of (snd (post_balances_deposit e hdr userId amount s)) (profile_id p) =
              Some (sql_add e (balance p) amount)) \<and>
         (amount > js_mul e (Job_sum e s (profile_id p)) 0.25 \<longrightarrow>
            post_balances_deposit e hdr userId amount s = (DepositExceedsMaximum, s) \<and>
            http_status DepositExceedsMaximum = 400) \<and>
         (prices_to_pay s (profile_id p) = [] \<longrightarrow> Job_sum e s (profile_id p) = 0) \<and>
         (sql_sum e (prices_to_pay s (profile_id p)) = sum_list (prices_to_pay s (profile_id p)) \<and>
          js_mul e (sum_list (prices_to_pay s (profile_id p))) 0.25 =
            sum_list (prices_to_pay s (profile_id p)) * 0.25 \<longrightarrow>
            js_mul e (Job_sum e s (profile_id p)) 0.25 =
              0.25 * sum_list (prices_to_pay s (profile_id p))) \<and>
         (list_all (\<lambda>j. paid j \<noteq> Some False) (jobs s) \<longrightarrow>
            sum_list (prices_to_pay s (profile_id p)) = outstanding_spec s (profile_id p))"
proof -
  let ?cap = "js_mul e (Job_sum e s (profile_id p)) 0.25"
  from getProfile_Inr(1) [OF g] have b: "balance_of s (profile_id p) = Some (balance p)"
    by (simp add: balance_of_def)
  have eq: "amount = ?cap \<longrightarrow>
            fst (post_balances_deposit e hdr userId amount s) = DepositSuccessful \<and>
            http_status DepositSuccessful = 200 \<and>
            balance_of (snd (post_balances_deposit e hdr userId amount s)) (profile_id p) =
              Some (sql_add e (balance p) amount)"
    using g auth nf
    by (simp add: post_balances_deposit_def guarded_def deposit_def Let_def
        balance_of_Profile_update b)
  have gt: "amount > ?cap \<longrightarrow>
            post_balances_deposit e hdr userId amount s = (DepositExceedsMaximum, s) \<and>
            http_status DepositExceedsMaximum = 400"
    using g auth nf
    by (simp add: post_balances_deposit_def guarded_def deposit_def Let_def)
  have z: "prices_to_pay s (profile_id p) = [] \<longrightarrow> Job_sum e s (profile_id p) = 0"
    by (simp add: Job_sum_def)
  have x: "sql_sum e (prices_to_pay s (profile_id p)) = sum_list (prices_to_pay s (profile_id p)) \<and>
          js_mul e (sum_list (prices_to_pay s (profile_id p))) 0.25 =
            sum_list (prices_to_pay s (profile_id p)) * 0.25 \<longrightarrow>
            ?cap = 0.25 * sum_list (prices_to_pay s (profile_id p))"
    by (cases "prices_to_pay s (profile_id p) = []") (simp_all add: Job_sum_def)
  from b eq gt z x prices_to_pay_outstanding_spec [of s "profile_id p"] show ?thesis by blast
qed

text \<open>
  The first client has one job to pay, of price 10: a deposit of 2.5 is accepted, a
  deposit of 3 is refused.
\<close>

theorem deposit_cap_witness:
  "getProfile env0 store0 (Some ''1'') = Inr alice \<and>
   parseInt env0 ''1'' = Some (profile_id alice) \<and> ptype alice = Client \<and>
   \<not> fails env0 JobSum \<and> \<not> fails env0 ProfileUpdateDeposit \<and>
   Job_sum env0 store0 (profile_id alice) = 10 \<and>
   js_mul env0 (Job_sum env0 store0 (profile_id alice)) 0.25 = 5 / 2 \<and>
   sql_add env0 (balance alice) (5 / 2) = 205 / 2 \<and>
   fst (post_balances_deposit env0 (Some ''1'') ''1'' (5 / 2) store0) = DepositSuccessful \<and>
   balance_of (snd (post_balances_deposit env0 (Some ''1'') ''1'' (5 / 2) store0))
     (profile_id alice) = Some (205 / 2) \<and>
   post_balances_deposit env0 (Some ''1'') ''1'' 3 store0 = (DepositExceedsMaximum, store0)"
proof -
  have g: "getProfile env0 store0 (Some ''1'') = Inr alice"
    by (simp add: model_defs example_defs)
  have a: "parseInt env0 ''1'' = Some (profile_id alice)" "ptype alice = Client"
    by (simp_all add: example_defs)
  have nf: "\<not> fails env0 JobSum" "\<not> fails env0 ProfileUpdateDeposit"
    by (simp_all add: env0_def)
  have t: "Job_sum env0 store0 (profile_id alice) = 10"
    by (simp add: model_defs example_defs Job_sum_def prices_to_pay_def to_pay_def
        binary64_examples)
  have c: "js_mul env0 10 0.25 = 5 / 2" "sql_add env0 (balance alice) (5 / 2) = 205 / 2"
    by (simp_all add: example_defs binary64_examples)
  from deposit_cap [OF g a nf, of "5 / 2"] deposit_cap [OF g a nf, of 3] g a nf t c
  show ?thesis by simp
qed

text \<open>
  The claim as it is written fails in two ways. With the total of the specification, on a
  store that holds a job whose \<open>paid\<close> is \<^verbatim>\<open>false\<close>: that total is 110, a quarter of it is
  27.5, and the request of 27.5 is refused, because the query of the source counts only
  the job of price 10. And with prices that have a fraction (the doubles nearest to 0.1
  and 0.2): the aggregate of the store rounds their sum up, and a request strictly above
  a quarter of the sum of the prices is accepted.
\<close>

theorem deposit_cap_counterexample:
  "getProfile env0 store_false (Some ''1'') = Inr alice \<and>
   parseInt env0 ''1'' = Some (profile_id alice) \<and> ptype alice = Client \<and>
   outstanding_spec store_false (profile_id alice) = 110 \<and>
   0.25 * outstanding_spec store_false (profile_id alice) = 55 / 2 \<and>
   post_balances_deposit env0 (Some ''1'') ''1'' (55 / 2) store_false =
     (DepositExceedsMaximum, store_false) \<and>
   getProfile env0 store_frac (Some ''1'') = Inr dave \<and> ptype dave = Client \<and>
   prices_to_pay store_frac 1 = [price job6, price job7] \<and>
   outstanding_spec store_frac 1 = price job6 + price job7 \<and>
   0.25 * (price job6 + price job7) < 1351079888211149 / 18014398509481984 \<and>
   fst (post_balances_deposit env0 (Some ''1'') ''1''
          (1351079888211149 / 18014398509481984) store_frac) = DepositSuccessful"
proof -
  have a: "getProfile env0 store_false (Some ''1'') = Inr alice"
    "parseInt env0 ''1'' = Some (profile_id alice)" "ptype alice = Client"
    "outstanding_spec store_false (profile_id alice) = 110"
    "0.25 * outstanding_spec store_false (profile_id alice) = 55 / 2"
    "post_balances_deposit env0 (Some ''1'') ''1'' (55 / 2) store_false =
       (DepositExceedsMaximum, store_false)"
    by (simp_all add: model_defs example_defs job4_def store_false_def outstanding_spec_def
        Job_sum_def prices_to_pay_def to_pay_def deposit_def post_balances_deposit_def
        binary64_examples)
  have b: "getProfile env0 store_frac (Some ''1'') = Inr dave" "ptype dave = Client"
    "prices_to_pay store_frac 1 = [price job6, price job7]"
    "outstanding_spec store_frac 1 = price job6 + price job7"
    "0.25 * (price job6 + price job7) < 1351079888211149 / 18014398509481984"
    by (simp_all add: model_defs example_defs dave_def erin_def job6_def job7_def
        store_frac_def outstanding_spec_def prices_to_pay_def to_pay_def)
  have c: "fst (post_balances_deposit env0 (Some ''1'') ''1''
          (1351079888211149 / 18014398509481984) store_frac) = DepositSuccessful"
    by code_simp
  from a b c show ?thesis by simp
qed

section \<open>Deposit: amounts that are not positive\<close>

text \<open>
  Claim C7. The handler compares the amount with the cap only from above. In the example
  store the first client, with a balance of 100, deposits -5: the request answers 200 and
  the balance is 95, where the claim asks for a failure and an unchanged balance. A
  deposit of 0 answers 200 as well.
\<close>

theorem deposit_negative_evaluation:
  "fst (post_balances_deposit env0 (Some ''1'') ''1'' (- 5) store0) = DepositSuccessful \<and>
   balance_of store0 1 = Some 100 \<and>
   balance_of (snd (post_balances_deposit env0 (Some ''1'') ''1'' (- 5) store0)) 1 = Some 95 \<and>
   fst (post_balances_deposit env0 (Some ''1'') ''1'' 0 store0) = DepositSuccessful"
  by (simp add: model_defs example_defs to_pay_def prices_to_pay_def Job_sum_def deposit_def
      post_balances_deposit_def binary64_examples)

section \<open>Payment: requests that do not succeed\<close>

text \<open>
  Claim C8, as amended. A request to pay that does not answer 200 leaves the whole store
  as it was, so the two balances and the \<open>paid\<close> flag and payment date of the job, in
  each of these cases: the answer is not 500 (the request was rejected by the middleware,
  by the lookup of the job, by the check of the caller or by the funds check); or the
  store rejected neither the credit of the contractor nor the update of the job (a 500
  that comes from a read, from a job without contract, or from the debit).
\<close>

theorem payJob_rejected_unchanged:
  assumes run: "post_jobs_pay e now hdr jobId s = (r, s')"
    and no: "r \<noteq> PaymentSuccessful"
  shows "(r \<noteq> InternalServerError \<longrightarrow> s' = s) \<and>
         (\<not> fails e ProfileUpdateCredit \<and> \<not> fails e JobUpdate \<longrightarrow> s' = s)"
proof -
  have a: "s' = s" if "r \<noteq> InternalServerError"
    using run no that
    by (auto simp: post_jobs_pay_def guarded_def payJob_def Let_def
        split: sum.splits option.splits if_splits prod.splits)
  have b: "s' = s" if "\<not> fails e ProfileUpdateCredit" "\<not> fails e JobUpdate"
    using run no that
    by (auto simp: post_jobs_pay_def guarded_def payJob_def Let_def
        split: sum.splits option.splits if_splits prod.splits)
  from a b show ?thesis by blast
qed

text \<open>The third client asks to pay a job of the first client.\<close>

theorem payJob_rejected_unchanged_witness:
  "post_jobs_pay env0 7 (Some ''3'') ''1'' store0 = (UnauthorizedPay, store0) \<and>
   UnauthorizedPay \<noteq> PaymentSuccessful \<and> UnauthorizedPay \<noteq> InternalServerError \<and>
   \<not> fails env0 ProfileUpdateCredit \<and> \<not> fails env0 JobUpdate"
proof -
  have r: "fst (post_jobs_pay env0 7 (Some ''3'') ''1'' store0) = UnauthorizedPay"
    by (simp add: model_defs example_defs)
  then have run: "post_jobs_pay env0 7 (Some ''3'') ''1'' store0 =
               (UnauthorizedPay, snd (post_jobs_pay env0 7 (Some ''3'') ''1'' store0))"
    by (simp add: prod_eq_iff)
  have nf: "\<not> fails env0 ProfileUpdateCredit" "\<not> fails env0 JobUpdate"
    by (simp_all add: env0_def)
  have d: "UnauthorizedPay \<noteq> PaymentSuccessful" "UnauthorizedPay \<noteq> InternalServerError"
    by simp_all
  from payJob_rejected_unchanged [OF run d(1)] d
  have "snd (post_jobs_pay env0 7 (Some ''3'') ''1'' store0) = store0" by simp
  with run nf d show ?thesis by simp
qed

text \<open>
  The claim as it is written fails when the store rejects the second of the three writes:
  the request answers 500, the client has been debited (100 to 90), the contractor has
  not been credited and the job is not marked paid.
\<close>

theorem payJob_partial_counterexample:
  "fst (post_jobs_pay env_credit_fails 7 (Some ''1'') ''1'' store0) = InternalServerError \<and>
   balance_of store0 1 = Some 100 \<and>
   balance_of (snd (post_jobs_pay env_credit_fails 7 (Some ''1'') ''1'' store0)) 1 = Some 90 \<and>
   balance_of (snd (post_jobs_pay env_credit_fails 7 (Some ''1'') ''1'' store0)) 2 = Some 20 \<and>
   map_option paid (job_row (snd (post_jobs_pay env_credit_fails 7 (Some ''1'') ''1'' store0)) 1) =
     Some None"
  by (simp add: model_defs example_defs job_row_def env_credit_fails_def binary64_examples)

section \<open>The middleware\<close>

text \<open>
  Claim C9. When the read of the store does not throw, the middleware answers 400,
  profile id missing, when the request has no \<^verbatim>\<open>profile_id\<close> header (or an empty one,
  which the test of the source does not tell apart); it answers 404, profile not found,
  when the header matches no profile of the store; otherwise it hands the profile of the
  store with that key to the handler. In the first two cases the route returns the store
  as it was; in the third the handler runs on that same store: the middleware writes
  nothing.
\<close>

theorem getProfile_guard:
  assumes nf: "\<not> fails e ProfileFindOne"
  shows "(hdr = None \<or> hdr = Some [] \<longrightarrow>
            getProfile e s hdr = Inl ProfileIdMissing \<and> guarded e hdr h s = (ProfileIdMissing, s) \<and>
            http_status ProfileIdMissing = 400) \<and>
         (\<forall>t. hdr = Some t \<and> t \<noteq> [] \<and> Profile_findOne e s t = None \<longrightarrow>
            getProfile e s hdr = Inl ProfileNotFound \<and> guarded e hdr h s = (ProfileNotFound, s) \<and>
            http_status ProfileNotFound = 404) \<and>
         (\<forall>t p. hdr = Some t \<and> t \<noteq> [] \<and> Profile_findOne e s t = Some p \<longrightarrow>
            getProfile e s hdr = Inr p \<and> p \<in> set (profiles s) \<and>
            key_of e t = Some (profile_id p) \<and> guarded e hdr h s = h p s)"
  using nf
  by (auto simp: getProfile_def guarded_def Profile_findOne_def
      split: option.splits dest: find_profile_id)

text \<open>No header, a header that names no profile, and the header of the contractor.\<close>

theorem getProfile_guard_witness:
  "\<not> fails env0 ProfileFindOne \<and>
   getProfile env0 store0 None = Inl ProfileIdMissing \<and>
   Profile_findOne env0 store0 ''9'' = None \<and>
   getProfile env0 store0 (Some ''9'') = Inl ProfileNotFound \<and>
   Profile_findOne env0 store0 ''2'' = Some bob \<and>
   getProfile env0 store0 (Some ''2'') = Inr bob \<and>
   guarded env0 (Some ''2'') (\<lambda>p s. (PaymentSuccessful, s)) store0 = (PaymentSuccessful, store0)"
proof -
  have nf: "\<not> fails env0 ProfileFindOne" by (simp add: env0_def)
  have a: "Profile_findOne env0 store0 ''9'' = None"
    by (simp add: model_defs example_defs)
  have b: "Profile_findOne env0 store0 ''2'' = Some bob"
    by (simp add: model_defs example_defs)
  from getProfile_guard [OF nf, of None store0]
       getProfile_guard [OF nf, of "Some ''9''" store0]
       getProfile_guard [OF nf, of "Some ''2''" store0 "\<lambda>p s. (PaymentSuccessful, s)"]
       nf a b
  show ?thesis by simp
qed

section \<open>Payment: what a successful payment leaves alone\<close>

text \<open>
  Claim C10. A payment that answers 200 changes the store only in its profiles and its
  jobs: the contracts are as they were. Row by row, a profile differs from what it was at
  most in its balance, and not at all unless its key is the one of the payer or the
  \<open>ContractorId\<close> of the contract; a job differs from what it was at most in \<open>paid\<close> and
  \<open>paymentDate\<close>, and not at all unless its key is the one of the paid job.
\<close>

theorem payJob_frame:
  assumes ok: "post_jobs_pay e now hdr jobId s = (PaymentSuccessful, s')"
  shows "\<exists>p j c.
           getProfile e s hdr = Inr p \<and> Job_findByPk e s jobId = Some (j, Some c) \<and>
           s' = s\<lparr>profiles := profiles s', jobs := jobs s'\<rparr> \<and>
           contracts s' = contracts s \<and>
           length (profiles s') = length (profiles s) \<and>
           (\<forall>i < length (profiles s).
              (profiles s' ! i)\<lparr>balance := balance (profiles s ! i)\<rparr> = profiles s ! i \<and>
              (profile_id (profiles s ! i) \<noteq> profile_id p \<and>
               profile_id (profiles s ! i) \<noteq> ContractorId c \<longrightarrow>
                 profiles s' ! i = profiles s ! i)) \<and>
           length (jobs s') = length (jobs s) \<and>
           (\<forall>i < length (jobs s).
              (jobs s' ! i)\<lparr>paid := paid (jobs s ! i), paymentDate := paymentDate (jobs s ! i)\<rparr> =
                jobs s ! i \<and>
              (job_id (jobs s ! i) \<noteq> job_id j \<longrightarrow> jobs s' ! i = jobs s ! i))"
proof -
  from post_jobs_pay_success [OF ok] obtain p j c where
    g: "getProfile e s hdr = Inr p" and f: "Job_findByPk e s jobId = Some (j, Some c)" and
    s': "s' = Job_update now j
                  (Profile_update (\<lambda>b. sql_add e b (price j)) (ContractorId c)
                     (Profile_update (\<lambda>b. sql_sub e b (price j)) (profile_id p) s))"
    by blast
  have "s' = s\<lparr>profiles := profiles s', jobs := jobs s'\<rparr>" "contracts s' = contracts s"
    "length (profiles s') = length (profiles s)" "length (jobs s') = length (jobs s)"
    by (simp_all add: s' Job_update_def Profile_update_def)
  moreover have "\<forall>i < length (profiles s).
      (profiles s' ! i)\<lparr>balance := balance (profiles s ! i)\<rparr> = profiles s ! i \<and>
      (profile_id (profiles s ! i) \<noteq> profile_id p \<and>
       profile_id (profiles s ! i) \<noteq> ContractorId c \<longrightarrow> profiles s' ! i = profiles s ! i)"
    by (simp add: s' Job_update_def Profile_update_def)
  moreover have "\<forall>i < length (jobs s).
      (jobs s' ! i)\<lparr>paid := paid (jobs s ! i), paymentDate := paymentDate (jobs s ! i)\<rparr> =
        jobs s ! i \<and>
      (job_id (jobs s ! i) \<noteq> job_id j \<longrightarrow> jobs s' ! i = jobs s ! i)"
    by (simp add: s' Job_update_def Profile_update_def)
  ultimately show ?thesis using g f by blast
qed

text \<open>
  The first client pays the first job: the third profile, the contracts and the other
  jobs are as they were.
\<close>

theorem payJob_frame_witness:
  "fst (post_jobs_pay env0 7 (Some ''1'') ''1'' store0) = PaymentSuccessful \<and>
   contracts (snd (post_jobs_pay env0 7 (Some ''1'') ''1'' store0)) = contracts store0 \<and>
   length (profiles (snd (post_jobs_pay env0 7 (Some ''1'') ''1'' store0))) =
     length (profiles store0) \<and>
   profiles (snd (post_jobs_pay env0 7 (Some ''1'') ''1'' store0)) ! 2 = carol \<and>
   jobs (snd (post_jobs_pay env0 7 (Some ''1'') ''1'' store0)) =
     [job1\<lparr>paid := Some True, paymentDate := Some 7\<rparr>, job2, job3]"
proof -
  have r: "fst (post_jobs_pay env0 7 (Some ''1'') ''1'' store0) = PaymentSuccessful"
    by (simp add: model_defs example_defs)
  then have ok: "post_jobs_pay env0 7 (Some ''1'') ''1'' store0 =
                  (PaymentSuccessful, snd (post_jobs_pay env0 7 (Some ''1'') ''1'' store0))"
    by (simp add: prod_eq_iff)
  have v: "profiles (snd (post_jobs_pay env0 7 (Some ''1'') ''1'' store0)) ! 2 = carol"
    "jobs (snd (post_jobs_pay env0 7 (Some ''1'') ''1'' store0)) =
       [job1\<lparr>paid := Some True, paymentDate := Some 7\<rparr>, job2, job3]"
    by (simp_all add: model_defs example_defs)
  from payJob_frame [OF ok] r v show ?thesis by blast
qed

section \<open>Deposit: the sum of the balances\<close>

text \<open>
  On a store whose profile keys are unique, a deposit that answers 200 moves the sum of
  the balances of all the profiles by the difference between the new balance of the
  client and the old one; when the store computes the addition exactly, the sum rises by
  exactly the amount of the request.
\<close>

theorem deposit_total:
  assumes d: "distinct (map profile_id (profiles s))"
    and ok: "post_balances_deposit e hdr userId amount s = (DepositSuccessful, s')"
  shows "\<exists>p. getProfile e s hdr = Inr p \<and>
           total_balance s' = total_balance s + (sql_add e (balance p) amount - balance p) \<and>
           (sql_add e (balance p) amount = balance p + amount \<longrightarrow>
              total_balance s' = total_balance s + amount)"
proof -
  from ok obtain p where g: "getProfile e s hdr = Inr p"
    and s': "s' = Profile_update (\<lambda>b. sql_add e b amount) (profile_id p) s"
    by (auto simp: post_balances_deposit_def guarded_def deposit_def Let_def
        split: sum.splits if_splits dest: getProfile_Inl)
  from getProfile_Inr(1) [OF g] have "balance_of s (profile_id p) = Some (balance p)"
    by (simp add: balance_of_def)
  from total_balance_Profile_update [OF d this, of "\<lambda>b. sql_add e b amount"] s' g
  show ?thesis by auto
qed

theorem deposit_total_witness:
  "distinct (map profile_id (profiles store0)) \<and>
   fst (post_balances_deposit env0 (Some ''1'') ''1'' 2 store0) = DepositSuccessful \<and>
   getProfile env0 store0 (Some ''1'') = Inr alice \<and>
   sql_add env0 (balance alice) 2 = balance alice + 2 \<and>
   total_balance store0 = 125 \<and>
   total_balance (snd (post_balances_deposit env0 (Some ''1'') ''1'' 2 store0)) = 127"
proof -
  have d: "distinct (map profile_id (profiles store0))"
    by (simp add: example_defs)
  have r: "fst (post_balances_deposit env0 (Some ''1'') ''1'' 2 store0) = DepositSuccessful"
    by (simp add: model_defs example_defs Job_sum_def prices_to_pay_def to_pay_def
        deposit_def post_balances_deposit_def binary64_examples)
  then have ok: "post_balances_deposit env0 (Some ''1'') ''1'' 2 store0 =
      (DepositSuccessful, snd (post_balances_deposit env0 (Some ''1'') ''1'' 2 store0))"
    by (simp add: prod_eq_iff)
  have g: "getProfile env0 store0 (Some ''1'') = Inr alice"
    by (simp add: model_defs example_defs)
  have x: "sql_add env0 (balance alice) 2 = balance alice + 2"
    by (simp add: example_defs binary64_examples)
  have t: "total_balance store0 = 125"
    by (simp add: total_balance_def example_defs)
  from deposit_total [OF d ok] d r g x t show ?thesis by auto
qed

end
